theory Spec2Isabelle
  imports Main
begin

section \<open>Python strings\<close>

text \<open>
  Strings are lists of characters. A character stands for one code point below 256; the
  formatter reads text, and every class, keyword and case conversion it applies is decided
  on ASCII characters. The exceptions the formatter can raise are values.
\<close>

datatype pyerror = KeyError | IndexError | AttributeError | TypeError

definition bindE :: "pyerror + 'a \<Rightarrow> ('a \<Rightarrow> pyerror + 'b) \<Rightarrow> pyerror + 'b" where
  "bindE m f = (case m of Inl e \<Rightarrow> Inl e | Inr x \<Rightarrow> f x)"

definition getkey :: "'a option \<Rightarrow> pyerror + 'a" where
  \<comment> \<open>\<open>d[k]\<close> on a dict: a missing key raises KeyError.\<close>
  "getkey v = (case v of None \<Rightarrow> Inl KeyError | Some x \<Rightarrow> Inr x)"

definition isspace :: "char \<Rightarrow> bool" where
  \<comment> \<open>\<open>str.isspace\<close> on the code points below 256: 9-13, 28-32, 133, 160.\<close>
  "isspace c = (c \<in> set [CHR 0x09, CHR 0x0A, CHR 0x0B, CHR 0x0C, CHR 0x0D,
                           CHR 0x1C, CHR 0x1D, CHR 0x1E, CHR 0x1F, CHR 0x20,
                           CHR 0x85, CHR 0xA0])"

definition lstrip :: "string \<Rightarrow> string" where
  "lstrip s = dropWhile isspace s"

definition rstrip :: "string \<Rightarrow> string" where
  "rstrip s = rev (dropWhile isspace (rev s))"

definition strip :: "string \<Rightarrow> string" where
  "strip s = rstrip (lstrip s)"

definition norm_index :: "nat \<Rightarrow> int \<Rightarrow> nat" where
  \<comment> \<open>A slice bound on a string of length \<open>n\<close>: negative bounds count from the end, and
      every bound is clamped to \<open>0..n\<close>.\<close>
  "norm_index n i = (if i < 0 then nat (int n + i) else min n (nat i))"

definition slice_from :: "string \<Rightarrow> int \<Rightarrow> string" where
  \<comment> \<open>\<open>s[i:]\<close>\<close>
  "slice_from s i = drop (norm_index (length s) i) s"

definition slice_to :: "string \<Rightarrow> int \<Rightarrow> string" where
  \<comment> \<open>\<open>s[:j]\<close>\<close>
  "slice_to s j = take (norm_index (length s) j) s"

definition slice :: "string \<Rightarrow> int \<Rightarrow> int \<Rightarrow> string" where
  \<comment> \<open>\<open>s[i:j]\<close>\<close>
  "slice s i j = drop (norm_index (length s) i) (take (norm_index (length s) j) s)"

fun find_from :: "char \<Rightarrow> string \<Rightarrow> int \<Rightarrow> int" where
  "find_from c [] i = - 1"
| "find_from c (x # xs) i = (if x = c then i else find_from c xs (i + 1))"

definition find :: "char \<Rightarrow> string \<Rightarrow> int" where
  \<comment> \<open>\<open>s.find(c)\<close>: the first index of \<open>c\<close>, or -1.\<close>
  "find c s = find_from c s 0"

fun rfind_from :: "char \<Rightarrow> string \<Rightarrow> int \<Rightarrow> int \<Rightarrow> int" where
  "rfind_from c [] i best = best"
| "rfind_from c (x # xs) i best = rfind_from c xs (i + 1) (if x = c then i else best)"

definition rfind :: "char \<Rightarrow> string \<Rightarrow> int \<Rightarrow> int" where
  \<comment> \<open>\<open>s.rfind(c, 0, e)\<close>: the last index of \<open>c\<close> in \<open>s[0:e]\<close>, or -1.\<close>
  "rfind c s e = rfind_from c (slice_to s e) 0 (- 1)"

definition startswith :: "string \<Rightarrow> string \<Rightarrow> bool" where
  \<comment> \<open>\<open>s.startswith(p)\<close>\<close>
  "startswith p s = (take (length p) s = p)"

definition startswith_at :: "string \<Rightarrow> string \<Rightarrow> nat \<Rightarrow> bool" where
  \<comment> \<open>\<open>s.startswith(p, k)\<close>: the test starts at index \<open>k\<close>.\<close>
  "startswith_at p s k = (k \<le> length s \<and> startswith p (drop k s))"

definition spaces :: "int \<Rightarrow> string" where
  \<comment> \<open>\<open>' ' * n\<close>: empty for a negative \<open>n\<close>.\<close>
  "spaces n = replicate (nat n) (CHR '' '')"

definition ljust :: "int \<Rightarrow> string \<Rightarrow> string" where
  \<comment> \<open>\<open>s.ljust(n)\<close>\<close>
  "ljust n s = s @ spaces (n - int (length s))"

definition rjust :: "int \<Rightarrow> string \<Rightarrow> string" where
  \<comment> \<open>\<open>s.rjust(n)\<close>\<close>
  "rjust n s = spaces (n - int (length s)) @ s"

definition lower_char :: "char \<Rightarrow> char" where
  "lower_char c = (case map_of (zip ''ABCDEFGHIJKLMNOPQRSTUVWXYZ'' ''abcdefghijklmnopqrstuvwxyz'') c
                   of None \<Rightarrow> c | Some d \<Rightarrow> d)"

definition upper_char :: "char \<Rightarrow> char" where
  "upper_char c = (case map_of (zip ''abcdefghijklmnopqrstuvwxyz'' ''ABCDEFGHIJKLMNOPQRSTUVWXYZ'') c
                   of None \<Rightarrow> c | Some d \<Rightarrow> d)"

definition lower :: "string \<Rightarrow> string" where
  \<comment> \<open>\<open>s.lower()\<close>; the formatter applies it to mnemonics, which are ASCII.\<close>
  "lower s = map lower_char s"

definition upper :: "string \<Rightarrow> string" where
  \<comment> \<open>\<open>s.upper()\<close>; the formatter applies it to directive texts, which are ASCII.\<close>
  "upper s = map upper_char s"

fun comma_join :: "string \<Rightarrow> string" where
  \<comment> \<open>\<open>', '.join(re.split(', ?', s))\<close>: every comma, with the one space that may follow it,
      becomes a comma and a space.\<close>
  "comma_join [] = []"
| "comma_join (c # cs) =
     (if c = CHR '','' then
        (case cs of
           [] \<Rightarrow> '', ''
         | d # ds \<Rightarrow> if d = CHR '' '' then '', '' @ comma_join ds else '', '' @ comma_join cs)
      else c # comma_join cs)"

section \<open>Character classes and the patterns of the classifier\<close>

definition is_alpha :: "char \<Rightarrow> bool" where
  \<comment> \<open>\<open>[a-zA-Z]\<close>\<close>
  "is_alpha c = (c \<in> set ''abcdefghijklmnopqrstuvwxyzABCDEFGHIJKLMNOPQRSTUVWXYZ'')"

definition is_digit :: "char \<Rightarrow> bool" where
  \<comment> \<open>\<open>[0-9]\<close>\<close>
  "is_digit c = (c \<in> set ''0123456789'')"

definition is_alnum :: "char \<Rightarrow> bool" where
  \<comment> \<open>\<open>[a-zA-Z0-9]\<close>\<close>
  "is_alnum c = (is_alpha c \<or> is_digit c)"

definition is_word :: "char \<Rightarrow> bool" where
  \<comment> \<open>\<open>[a-zA-Z0-9_]\<close>\<close>
  "is_word c = (is_alnum c \<or> c = CHR ''_'')"

definition is_blank :: "char \<Rightarrow> bool" where
  \<comment> \<open>\<open>[ \t]\<close>\<close>
  "is_blank c = (c = CHR '' '' \<or> c = CHR 0x09)"

definition istartswith :: "string \<Rightarrow> string \<Rightarrow> bool" where
  \<comment> \<open>A literal matched at the start of \<open>s\<close> under \<open>re.IGNORECASE\<close>.\<close>
  "istartswith p s = (lower (take (length p) s) = lower p)"

definition get_indent :: "int \<Rightarrow> string \<Rightarrow> string" where
  \<comment> \<open>\<open>re.match(r'^[ \t]*', line).group(0).replace('\t', ' ' * tab_size)\<close>\<close>
  "get_indent tab line =
     concat (map (\<lambda>c. if c = CHR 0x09 then spaces tab else [c]) (takeWhile is_blank line))"

subsection \<open>The header comment pattern\<close>

definition header_words :: "string list" where
  "header_words = [''Author'', ''Assignment'', ''Date'']"

fun word_then_colon :: "string \<Rightarrow> bool" where
  \<comment> \<open>\<open>.*(Author|Assignment|Date).*:\<close> on a text without a newline: one of the words
      starts somewhere, and a colon follows it.\<close>
  "word_then_colon [] = False"
| "word_then_colon (c # cs) =
     (list_ex (\<lambda>w. istartswith w (c # cs) \<and> CHR '':'' \<in> set (drop (length w) (c # cs)))
        header_words
      \<or> word_then_colon cs)"

fun header_search :: "string \<Rightarrow> bool" where
  \<comment> \<open>\<open>re.search(r';.*(Author|Assignment|Date).*:', line, re.IGNORECASE)\<close>: the search
      tries every semicolon of the line, and \<open>.\<close> does not cross a newline.\<close>
  "header_search [] = False"
| "header_search (c # cs) =
     ((c = CHR '';'' \<and> word_then_colon (takeWhile (\<lambda>d. d \<noteq> CHR 0x0A) cs))
      \<or> header_search cs)"

subsection \<open>The directive value pattern\<close>

fun directive_run :: "string \<Rightarrow> nat" where
  \<comment> \<open>The length of the longest prefix matching \<open>([a-zA-Z0-9.] ?)*\<close>: each round takes
      one character of the class and the space after it, if there is one.\<close>
  "directive_run [] = 0"
| "directive_run (c # cs) =
     (if is_alnum c \<or> c = CHR ''.'' then
        (case cs of
           [] \<Rightarrow> 1
         | d # ds \<Rightarrow> if d = CHR '' '' then 2 + directive_run ds else 1 + directive_run cs)
      else 0)"

definition directive_value :: "string \<Rightarrow> pyerror + string" where
  \<comment> \<open>\<open>re.match(r'\.?([a-zA-Z0-9.] ?)+', line).group(0).strip()\<close>. The dot is in the class
      of the group, so the optional leading dot adds nothing; with no match, \<open>.group\<close> is
      called on None and raises AttributeError.\<close>
  "directive_value line =
     (if directive_run line = 0 then Inl AttributeError
      else Inr (strip (take (directive_run line) line)))"

subsection \<open>The data pattern\<close>

definition data_keyword :: "string \<Rightarrow> nat option" where
  \<comment> \<open>\<open>(BYTE|D?Q?WORD)\<close> under \<open>re.IGNORECASE\<close> at the start of \<open>s\<close>: the length matched.\<close>
  "data_keyword s =
     (if istartswith ''BYTE'' s then Some 4
      else (let d = (if istartswith ''D'' s then 1 else 0);
                q = (if istartswith ''Q'' (drop d s) then 1 else 0)
            in if istartswith ''WORD'' (drop (d + q) s) then Some (d + q + 4) else None))"

definition is_init :: "char \<Rightarrow> bool" where
  \<comment> \<open>\<open>[0-9a-zA-Z,()?]\<close>\<close>
  "is_init c = (is_alnum c \<or> c \<in> set '',()?'')"

definition quoted_end :: "string \<Rightarrow> nat option" where
  \<comment> \<open>\<open>.+"\<close> after an opening quote: the greedy \<open>.+\<close> runs to the last quote before a
      newline, and takes at least one character. The result is the length matched.\<close>
  "quoted_end r =
     (let k = rfind (CHR 0x22) (takeWhile (\<lambda>d. d \<noteq> CHR 0x0A) r) (int (length r))
      in if 1 \<le> k then Some (nat k + 1) else None)"

fun init_run :: "string \<Rightarrow> nat" where
  \<comment> \<open>The length of the longest prefix matching \<open>([0-9a-zA-Z,()?] ?|".+")*\<close>; nothing
      follows the group in the pattern, so no round is ever undone.\<close>
  "init_run [] = 0"
| "init_run (c # cs) =
     (if is_init c then
        (case cs of
           [] \<Rightarrow> 1
         | d # ds \<Rightarrow> if d = CHR '' '' then 2 + init_run ds else 1 + init_run cs)
      else if c = CHR 0x22 then
        (case quoted_end cs of
           None \<Rightarrow> 0
         | Some n \<Rightarrow> Suc n + init_run (drop n cs))
      else 0)"

text \<open>
  \<open>^([a-zA-Z_][a-zA-Z0-9_]+)[ \t]+(BYTE|D?Q?WORD)[ \t]+(([0-9a-zA-Z,()?] ?|".+")+)\<close> under
  \<open>re.IGNORECASE\<close>. The label is the whole run of word characters (a shorter one would
  leave a word character where a blank is needed), and it has at least two characters.
  The result is the groups 1, 2 and 3.
\<close>

definition data_match :: "string \<Rightarrow> (string \<times> string \<times> string) option" where
  "data_match line =
     (case line of
        [] \<Rightarrow> None
      | c # cs \<Rightarrow>
          if \<not> (is_alpha c \<or> c = CHR ''_'') then None
          else
            (let lab = c # takeWhile is_word cs;
                 r1 = dropWhile is_word cs;
                 r2 = dropWhile is_blank r1
             in if length lab < 2 \<or> takeWhile is_blank r1 = [] then None
                else
                  (case data_keyword r2 of
                     None \<Rightarrow> None
                   | Some n \<Rightarrow>
                       (let r3 = drop n r2; r4 = dropWhile is_blank r3
                        in if takeWhile is_blank r3 = [] \<or> init_run r4 = 0 then None
                           else Some (lab, take n r2, take (init_run r4) r4)))))"

subsection \<open>The procedure pattern\<close>

text \<open>
  \<open>^([a-zA-Z_][a-zA-Z0-9_]*)[ \t]+(PROC|ENDP)\<close>, case sensitive. The result is the groups
  1 and 2.
\<close>

definition proc_match :: "string \<Rightarrow> (string \<times> string) option" where
  "proc_match line =
     (case line of
        [] \<Rightarrow> None
      | c # cs \<Rightarrow>
          if \<not> (is_alpha c \<or> c = CHR ''_'') then None
          else
            (let r1 = dropWhile is_word cs; r2 = dropWhile is_blank r1
             in if takeWhile is_blank r1 = [] then None
                else if startswith ''PROC'' r2 then Some (c # takeWhile is_word cs, ''PROC'')
                else if startswith ''ENDP'' r2 then Some (c # takeWhile is_word cs, ''ENDP'')
                else None))"

subsection \<open>The instruction pattern\<close>

fun operand_run :: "string \<Rightarrow> nat" where
  \<comment> \<open>The length of the longest prefix matching \<open>([0-9a-zA-Z,] ?)*\<close>.\<close>
  "operand_run [] = 0"
| "operand_run (c # cs) =
     (if is_alnum c \<or> c = CHR '','' then
        (case cs of
           [] \<Rightarrow> 1
         | d # ds \<Rightarrow> if d = CHR '' '' then 2 + operand_run ds else 1 + operand_run cs)
      else 0)"

text \<open>
  \<open>^([a-zA-Z][a-zA-Z0-9]*)([ \t]+(([0-9a-zA-Z,] ?)+))?\<close>, case sensitive. The result is
  group 1 and group 3, which is None when the optional group 2 did not take part.
\<close>

definition instr_match :: "string \<Rightarrow> (string \<times> string option) option" where
  "instr_match line =
     (case line of
        [] \<Rightarrow> None
      | c # cs \<Rightarrow>
          if \<not> is_alpha c then None
          else
            (let r1 = dropWhile is_alnum cs; r2 = dropWhile is_blank r1
             in if takeWhile is_blank r1 = [] \<or> operand_run r2 = 0
                then Some (c # takeWhile is_alnum cs, None)
                else Some (c # takeWhile is_alnum cs, Some (take (operand_run r2) r2))))"

section \<open>Configuration and tokens\<close>

record config =
  fix_indents :: bool
  tab_size :: int
  fix_file_width :: bool
  file_width :: int
  long_comment_indent_amount :: int
  fix_capitalization :: bool
  fix_blank_lines :: bool
  align_comments :: bool
  align_data_comments :: bool
  align_data_comments_separately :: bool
  min_comment_spacing :: int
  align_code_section :: bool
  min_instruction_operand_spacing :: int
  add_spaces_between_operands :: bool
  align_data_section :: bool
  align_code_and_data_together :: bool
  min_data_directive_spacing :: int
  min_data_initial_value_spacing :: int
  add_spaces_between_initial_values :: bool
  align_header_comments :: bool

definition DEFAULT_CONFIG :: config where
  "DEFAULT_CONFIG =
     \<lparr> fix_indents = True, tab_size = 2,
       fix_file_width = True, file_width = 80, long_comment_indent_amount = 2,
       fix_capitalization = True, fix_blank_lines = True,
       align_comments = True, align_data_comments = True,
       align_data_comments_separately = True, min_comment_spacing = 3,
       align_code_section = True, min_instruction_operand_spacing = 3,
       add_spaces_between_operands = True,
       align_data_section = True, align_code_and_data_together = False,
       min_data_directive_spacing = 2, min_data_initial_value_spacing = 2,
       add_spaces_between_initial_values = True,
       align_header_comments = True \<rparr>"

datatype ttype =
  T_blank_line | T_comment | T_directive | T_data | T_procedure | T_instruction | T_error
  | T_to_remove

datatype subtype = S_extension | S_header | S_full_line

text \<open>
  A token is a dict. Each field below is one key, and None says that the key is absent.
  The keys \<open>comment\<close> and \<open>operands\<close> can hold Python's None, so they carry a second
  option: \<open>Some None\<close> is the key present with the value None.
\<close>

record token =
  t_type :: ttype
  t_subtype :: "subtype option"
  t_field :: "string option"
  t_value :: "string option"
  t_comment :: "string option option"
  t_label :: "string option"
  t_directive :: "string option"
  t_mnemonic :: "string option"
  t_operands :: "string option option"
  t_error :: "string option"
  t_indent :: "string option"

definition new_token :: "ttype \<Rightarrow> token" where
  \<comment> \<open>A dict with the key \<open>type\<close> only.\<close>
  "new_token ty =
     \<lparr> t_type = ty, t_subtype = None, t_field = None, t_value = None, t_comment = None,
       t_label = None, t_directive = None, t_mnemonic = None, t_operands = None,
       t_error = None, t_indent = None \<rparr>"

section \<open>The classifier\<close>

definition trailing_comment :: "string \<Rightarrow> string option" where
  \<comment> \<open>\<open>line[line.find(';') + 2:] if line.find(';') > 0 else None\<close>\<close>
  "trailing_comment line =
     (if find (CHR '';'') line > 0 then Some (slice_from line (find (CHR '';'') line + 2))
      else None)"

definition classify_line :: "string \<Rightarrow> pyerror + token" where
  \<comment> \<open>The chain of tests of the parsing loop, on the stripped line.\<close>
  "classify_line line =
     (if length line = 0 then Inr (new_token T_blank_line)
      else if startswith '';  '' line then
        Inr ((new_token T_comment)
               \<lparr> t_subtype := Some S_extension, t_value := Some (strip (slice_from line 1)) \<rparr>)
      else if header_search line then
        Inr ((new_token T_comment)
               \<lparr> t_subtype := Some S_header,
                 t_field := Some (strip (slice line 1 (find (CHR '':'') line))),
                 t_value := Some (strip (slice_from line (find (CHR '':'') line + 1))) \<rparr>)
      else if startswith '';'' line then
        Inr ((new_token T_comment)
               \<lparr> t_subtype := Some S_full_line, t_value := Some (strip (slice_from line 1)) \<rparr>)
      else if startswith ''.'' line \<or> startswith ''INCLUDE'' line \<or> startswith_at ''END'' line 2
      then
        bindE (directive_value line) (\<lambda>v.
          Inr ((new_token T_directive)
                 \<lparr> t_value := Some v, t_comment := Some (trailing_comment line) \<rparr>))
      else
        (case data_match line of
           Some (lab, dir, val) \<Rightarrow>
             Inr ((new_token T_data)
                    \<lparr> t_label := Some lab, t_directive := Some dir, t_value := Some (strip val),
                      t_comment := Some (trailing_comment line) \<rparr>)
         | None \<Rightarrow>
             (case proc_match line of
                Some (lab, kind) \<Rightarrow>
                  Inr ((new_token T_procedure)
                         \<lparr> t_label := Some lab, t_value := Some kind,
                           t_comment := Some (trailing_comment line) \<rparr>)
              | None \<Rightarrow>
                  (case instr_match line of
                     Some (mn, ops) \<Rightarrow>
                       Inr ((new_token T_instruction)
                              \<lparr> t_mnemonic := Some mn, t_operands := Some (map_option strip ops),
                                t_comment := Some (trailing_comment line) \<rparr>)
                   | None \<Rightarrow>
                       Inr ((new_token T_error)
                              \<lparr> t_error := Some ''Unrecognized Token'',
                                t_value := Some line \<rparr>)))))"

definition classify :: "config \<Rightarrow> string \<Rightarrow> pyerror + token" where
  \<comment> \<open>One round of the parsing loop: the indent is taken from the raw line, the stripped
      line is classified, and the indent is kept in the token when \<open>fix_indents\<close> is off.
      The second argument of \<open>line.startswith('END', re.IGNORECASE)\<close> is the index where
      the test starts, and \<open>re.IGNORECASE\<close> is 2.\<close>
  "classify cfg raw =
     bindE (classify_line (strip raw)) (\<lambda>t.
       if \<not> fix_indents cfg then Inr (t\<lparr> t_indent := Some (get_indent (tab_size cfg) raw) \<rparr>)
       else Inr t)"

fun parse_lines :: "config \<Rightarrow> string list \<Rightarrow> pyerror + token list" where
  "parse_lines cfg [] = Inr []"
| "parse_lines cfg (l # ls) =
     bindE (classify cfg l) (\<lambda>t. bindE (parse_lines cfg ls) (\<lambda>ts. Inr (t # ts)))"

section \<open>The aggregator\<close>

text \<open>
  The second loop of the program runs over the indices of the token list and mutates the
  tokens in place. Its state is the token list, the four running maxima and the
  diagnostics printed so far (line number, error text, raw line).
\<close>

record agg_state =
  tokens :: "token list"
  max_field_size :: int
  max_label_size :: int
  max_size_size :: int
  max_mnemonic_size :: int
  diagnostics :: "(nat \<times> string \<times> string) list"

definition or_empty :: "string option \<Rightarrow> string" where
  \<comment> \<open>\<open>x or ''\<close>\<close>
  "or_empty x = (case x of None \<Rightarrow> [] | Some s \<Rightarrow> s)"

definition mark_removed :: "nat \<Rightarrow> token list \<Rightarrow> token list" where
  \<comment> \<open>\<open>tokens[i]['type'] = 'to_remove'\<close>: the other keys of the token stay.\<close>
  "mark_removed i ts = ts[i := (ts ! i)\<lparr> t_type := T_to_remove \<rparr>]"

definition merge_extension :: "config \<Rightarrow> nat \<Rightarrow> token list \<Rightarrow> pyerror + token list" where
  "merge_extension cfg i ts =
     (if fix_file_width cfg \<and> 0 < i \<and> t_type (ts ! i) = T_comment then
        bindE (getkey (t_subtype (ts ! i))) (\<lambda>sub.
          if sub = S_extension then
            (if t_type (ts ! (i - 1)) = T_comment then
               bindE (getkey (t_value (ts ! (i - 1)))) (\<lambda>pv.
               bindE (getkey (t_value (ts ! i))) (\<lambda>v.
                 Inr (mark_removed i
                        (ts[i - 1 := (ts ! (i - 1))\<lparr> t_value := Some (pv @ '' '' @ v) \<rparr>]))))
             else
               bindE (getkey (t_comment (ts ! (i - 1)))) (\<lambda>pc.
               bindE (getkey (t_value (ts ! i))) (\<lambda>v.
                 Inr (mark_removed i
                        (ts[i - 1 := (ts ! (i - 1))
                              \<lparr> t_comment := Some (Some (or_empty pc @ '' '' @ v)) \<rparr>])))))
          else Inr ts)
      else Inr ts)"

definition capitalize :: "token \<Rightarrow> pyerror + token" where
  "capitalize t =
     (let t1 = (case t_mnemonic t of None \<Rightarrow> t
                | Some m \<Rightarrow> t\<lparr> t_mnemonic := Some (lower m) \<rparr>);
          t2 = (case t_directive t1 of None \<Rightarrow> t1
                | Some d \<Rightarrow> t1\<lparr> t_directive := Some (upper d) \<rparr>)
      in if t_type t2 = T_directive
         then bindE (getkey (t_value t2)) (\<lambda>v. Inr (t2\<lparr> t_value := Some (upper v) \<rparr>))
         else Inr t2)"

definition measure_token :: "config \<Rightarrow> nat \<Rightarrow> agg_state \<Rightarrow> pyerror + agg_state" where
  \<comment> \<open>The \<open>if/elif\<close> chain on the type of token \<open>i\<close>. The value of a data token is a
      string whenever the key is there (group 3 takes part in every match of the data
      pattern), so \<open>is not None\<close> adds nothing to the test of the option.\<close>
  "measure_token cfg i st =
     (let ts = tokens st; t = ts ! i in
      if t_type t = T_error then
        bindE (getkey (t_error t)) (\<lambda>e.
        bindE (getkey (t_value t)) (\<lambda>v.
          Inr (st\<lparr> diagnostics := diagnostics st @ [(i + 1, e, v)] \<rparr>)))
      else if t_type t = T_data then
        bindE (getkey (t_label t)) (\<lambda>lab.
        bindE (getkey (t_directive t)) (\<lambda>dir.
          (let st1 = st\<lparr> max_label_size := max (max_label_size st) (int (length lab)),
                         max_size_size := max (max_size_size st) (int (length dir)) \<rparr>
           in if add_spaces_between_initial_values cfg then
                bindE (getkey (t_value t)) (\<lambda>v.
                  Inr (st1\<lparr> tokens := ts[i := t\<lparr> t_value := Some (comma_join v) \<rparr>] \<rparr>))
              else Inr st1)))
      else if t_type t = T_instruction then
        bindE (getkey (t_mnemonic t)) (\<lambda>mn.
          (let st1 = st\<lparr> max_mnemonic_size := max (max_mnemonic_size st) (int (length mn)) \<rparr>
           in if add_spaces_between_operands cfg then
                bindE (getkey (t_operands t)) (\<lambda>ops.
                  Inr (st1\<lparr> tokens := ts[i := t\<lparr> t_operands := Some (map_option comma_join ops) \<rparr>] \<rparr>))
              else Inr st1))
      else if fix_blank_lines cfg \<and> 0 < i \<and> t_type t = T_blank_line then
        (if t_type (ts ! (i - 1)) = T_blank_line
         then Inr (st\<lparr> tokens := mark_removed i ts \<rparr>)
         else Inr st)
      else if t_type t = T_comment then
        bindE (getkey (t_subtype t)) (\<lambda>sub.
          if sub = S_header then
            bindE (getkey (t_field t)) (\<lambda>f.
              Inr (st\<lparr> max_field_size := max (max_field_size st) (int (length f)) \<rparr>))
          else Inr st)
      else Inr st)"

definition agg_step :: "config \<Rightarrow> nat \<Rightarrow> agg_state \<Rightarrow> pyerror + agg_state" where
  \<comment> \<open>One round of the loop, for the index \<open>i\<close>.\<close>
  "agg_step cfg i st =
     bindE (merge_extension cfg i (tokens st)) (\<lambda>ts1.
     bindE (if fix_capitalization cfg then capitalize (ts1 ! i) else Inr (ts1 ! i)) (\<lambda>t.
       measure_token cfg i (st\<lparr> tokens := ts1[i := t] \<rparr>)))"

fun agg_loop :: "config \<Rightarrow> nat list \<Rightarrow> agg_state \<Rightarrow> pyerror + agg_state" where
  "agg_loop cfg [] st = Inr st"
| "agg_loop cfg (i # js) st = bindE (agg_step cfg i st) (agg_loop cfg js)"

definition agg_init :: "token list \<Rightarrow> agg_state" where
  "agg_init ts =
     \<lparr> tokens = ts, max_field_size = 0, max_label_size = 0, max_size_size = 0,
       max_mnemonic_size = 0, diagnostics = [] \<rparr>"

definition process_tokens :: "config \<Rightarrow> token list \<Rightarrow> pyerror + agg_state" where
  \<comment> \<open>\<open>for i in range(len(tokens))\<close>\<close>
  "process_tokens cfg ts = agg_loop cfg [0..<length ts] (agg_init ts)"

definition align_together :: "config \<Rightarrow> agg_state \<Rightarrow> config \<times> agg_state" where
  \<comment> \<open>With \<open>align_code_and_data_together\<close>, the label and mnemonic maxima become their
      maximum, and so do the two minimal spacings of the configuration.\<close>
  "align_together cfg st =
     (if align_code_and_data_together cfg then
        (cfg\<lparr> min_instruction_operand_spacing :=
                 max (min_instruction_operand_spacing cfg) (min_data_directive_spacing cfg),
               min_data_directive_spacing :=
                 max (min_instruction_operand_spacing cfg) (min_data_directive_spacing cfg) \<rparr>,
         st\<lparr> max_label_size := max (max_label_size st) (max_mnemonic_size st),
             max_mnemonic_size := max (max_label_size st) (max_mnemonic_size st) \<rparr>)
      else (cfg, st))"

definition remove_marked :: "token list \<Rightarrow> token list" where
  \<comment> \<open>\<open>[x for x in tokens if x['type'] != 'to_remove']\<close>\<close>
  "remove_marked ts = filter (\<lambda>x. t_type x \<noteq> T_to_remove) ts"

definition aggregate :: "config \<Rightarrow> token list \<Rightarrow> pyerror + (config \<times> agg_state)" where
  \<comment> \<open>The whole stage: the loop, the merge of the maxima, the filter.\<close>
  "aggregate cfg ts =
     bindE (process_tokens cfg ts) (\<lambda>st.
       Inr (case align_together cfg st of
              (cfg', st') \<Rightarrow> (cfg', st'\<lparr> tokens := remove_marked (tokens st') \<rparr>)))"

section \<open>The renderer\<close>

text \<open>
  A rendered line is a plain string, or a dict with the keys \<open>str\<close> and \<open>comment\<close> and,
  for a data line only, the key \<open>data\<close>.
\<close>

datatype rendered = Plain string | Structured string "string option" bool

record render_state =
  parsed_tokens :: "rendered list"
  max_string_size :: int
  max_data_string_size :: int
  indent_counter :: int

definition append_lines :: "rendered list \<Rightarrow> render_state \<Rightarrow> render_state" where
  "append_lines ls st = st\<lparr> parsed_tokens := parsed_tokens st @ ls \<rparr>"

definition render_header :: "config \<Rightarrow> agg_state \<Rightarrow> string \<Rightarrow> string \<Rightarrow> rendered list" where
  \<comment> \<open>A header comment: one plain line, or two when the line is split.\<close>
  "render_header cfg w field val =
     (let line = (if align_header_comments cfg
                  then ljust (4 + max_field_size w) (''; '' @ field @ '':'') @ val
                  else ''; '' @ field @ '': '' @ val)
      in if fix_file_width cfg \<and> file_width cfg < int (length line) then
           (let last_space = rfind (CHR '' '') line (file_width cfg)
            in [Plain (slice_to line last_space),
                Plain (ljust (4 + max_field_size w) ''; '' @ slice_from line (last_space + 1))])
         else [Plain line])"

definition render_append :: "config \<Rightarrow> agg_state \<Rightarrow> token \<Rightarrow> render_state \<Rightarrow> pyerror + render_state"
  where
  \<comment> \<open>The \<open>if/elif\<close> chain on the type of the token. An extension comment, an error token
      and a removed token match no branch, and nothing is appended for them.\<close>
  "render_append cfg w tok st =
     (if t_type tok = T_comment then
        bindE (getkey (t_subtype tok)) (\<lambda>sub.
          if sub = S_header then
            bindE (getkey (t_field tok)) (\<lambda>f.
            bindE (getkey (t_value tok)) (\<lambda>v.
              Inr (append_lines (render_header cfg w f v) st)))
          else if sub = S_full_line then
            bindE (getkey (t_value tok)) (\<lambda>v.
              Inr (append_lines [Structured (''; '' @ v) None False] st))
          else Inr st)
      else if t_type tok = T_blank_line then Inr (append_lines [Plain []] st)
      else if t_type tok = T_directive then
        bindE (getkey (t_value tok)) (\<lambda>v.
        bindE (getkey (t_comment tok)) (\<lambda>c.
          Inr (append_lines [Structured v c False] st)))
      else if t_type tok = T_data then
        bindE (getkey (t_label tok)) (\<lambda>lab.
        bindE (getkey (t_directive tok)) (\<lambda>dir.
        bindE (getkey (t_value tok)) (\<lambda>v.
        bindE (getkey (t_comment tok)) (\<lambda>c.
          (let str = ljust ((if align_data_section cfg then max_label_size w
                             else int (length lab)) + min_data_directive_spacing cfg) lab
                     @ ljust (max_size_size w + min_data_initial_value_spacing cfg) dir @ v;
               st1 = append_lines [Structured str c True] st
           in if align_data_comments cfg \<and> align_data_comments_separately cfg
              then Inr (st1\<lparr> max_data_string_size :=
                                max (max_data_string_size st1) (int (length str)) \<rparr>)
              else Inr st1)))))
      else if t_type tok = T_procedure then
        bindE (getkey (t_label tok)) (\<lambda>lab.
        bindE (getkey (t_value tok)) (\<lambda>v.
        bindE (getkey (t_comment tok)) (\<lambda>c.
          (let st1 = append_lines [Structured (lab @ '' '' @ v) c False] st
           in if v = ''PROC''
              then Inr (st1\<lparr> indent_counter := indent_counter st1 + 1 \<rparr>)
              else Inr (st1\<lparr> indent_counter := indent_counter st1 - 1 \<rparr>)))))
      else if t_type tok = T_instruction then
        bindE (getkey (t_mnemonic tok)) (\<lambda>mn.
        bindE (getkey (t_operands tok)) (\<lambda>ops.
        bindE (getkey (t_comment tok)) (\<lambda>c.
          Inr (append_lines
                 [Structured
                    (ljust ((if align_code_section cfg then max_mnemonic_size w
                             else int (length mn)) + min_instruction_operand_spacing cfg) mn
                     @ or_empty ops) c False] st))))
      else Inr st)"

definition prefix_line :: "string \<Rightarrow> rendered \<Rightarrow> rendered" where
  "prefix_line p l =
     (case l of Plain s \<Rightarrow> Plain (p @ s) | Structured s c d \<Rightarrow> Structured (p @ s) c d)"

definition render_indent :: "config \<Rightarrow> token \<Rightarrow> render_state \<Rightarrow> pyerror + render_state" where
  \<comment> \<open>The indentation goes to \<open>parsed_tokens[-1]\<close>, whatever line that is; on an empty
      list the index raises IndexError.\<close>
  "render_indent cfg tok st =
     (if parsed_tokens st = [] then Inl IndexError
      else if \<not> fix_indents cfg then
        bindE (getkey (t_indent tok)) (\<lambda>ind.
          Inr (st\<lparr> parsed_tokens :=
                     butlast (parsed_tokens st) @ [prefix_line ind (last (parsed_tokens st))] \<rparr>))
      else
        Inr (st\<lparr> parsed_tokens :=
                   butlast (parsed_tokens st)
                   @ [prefix_line (spaces (tab_size cfg * indent_counter st))
                        (last (parsed_tokens st))] \<rparr>))"

definition is_dict :: "rendered \<Rightarrow> bool" where
  "is_dict l = (case l of Plain s \<Rightarrow> False | Structured s c d \<Rightarrow> True)"

definition note_string_size :: "render_state \<Rightarrow> pyerror + render_state" where
  \<comment> \<open>\<open>max_string_size = max(max_string_size, len(parsed_tokens[-1]['str']))\<close>\<close>
  "note_string_size st =
     (case last (parsed_tokens st) of
        Plain s \<Rightarrow> Inl TypeError
      | Structured s c d \<Rightarrow>
          Inr (st\<lparr> max_string_size := max (max_string_size st) (int (length s)) \<rparr>))"

definition render_measure :: "config \<Rightarrow> token \<Rightarrow> render_state \<Rightarrow> pyerror + render_state" where
  \<comment> \<open>The last statement of the loop body; it runs after \<open>render_indent\<close>, so the list is
      not empty.\<close>
  "render_measure cfg tok st =
     (if (is_dict (last (parsed_tokens st)) \<and> t_type tok \<noteq> T_data)
         \<or> (t_type tok = T_data \<and> align_data_comments cfg
             \<and> \<not> align_data_comments_separately cfg)
      then
        (if t_type tok = T_comment then
           bindE (getkey (t_subtype tok)) (\<lambda>sub.
             if sub = S_full_line then Inr st else note_string_size st)
         else note_string_size st)
      else Inr st)"

definition render_token :: "config \<Rightarrow> agg_state \<Rightarrow> token \<Rightarrow> render_state \<Rightarrow> pyerror + render_state"
  where
  "render_token cfg w tok st =
     bindE (render_append cfg w tok st) (\<lambda>st1.
     bindE (render_indent cfg tok st1) (\<lambda>st2.
       render_measure cfg tok st2))"

fun render_loop :: "config \<Rightarrow> agg_state \<Rightarrow> token list \<Rightarrow> render_state \<Rightarrow> pyerror + render_state"
  where
  "render_loop cfg w [] st = Inr st"
| "render_loop cfg w (tok # toks) st = bindE (render_token cfg w tok st) (render_loop cfg w toks)"

definition render_init :: render_state where
  "render_init =
     \<lparr> parsed_tokens = [], max_string_size = 0, max_data_string_size = 0, indent_counter = 0 \<rparr>"

definition render :: "config \<Rightarrow> agg_state \<Rightarrow> pyerror + render_state" where
  "render cfg w = render_loop cfg w (tokens w) render_init"

section \<open>The emitter\<close>

text \<open>
  Each printed line goes to a sink: the output file when a name was given, standard output
  otherwise. \<open>print\<close> without \<open>file=\<close> writes to standard output.
\<close>

datatype sink = OutputFile | Stdout

definition output_sink :: "string option \<Rightarrow> sink" where
  \<comment> \<open>\<open>sys.stdout if output_file_name is None else open(output_file_name, 'w')\<close>\<close>
  "output_sink output_file_name = (case output_file_name of None \<Rightarrow> Stdout | Some n \<Rightarrow> OutputFile)"

definition comment_tail :: "string option \<Rightarrow> string" where
  \<comment> \<open>\<open>'; ' + line['comment'] if line['comment'] else ''\<close>: None and the empty string
      are both false.\<close>
  "comment_tail c = (case c of None \<Rightarrow> [] | Some s \<Rightarrow> if s = [] then [] else ''; '' @ s)"

definition output_string :: "config \<Rightarrow> render_state \<Rightarrow> string \<Rightarrow> string option \<Rightarrow> bool \<Rightarrow> string"
  where
  \<comment> \<open>The aligned line of a dict with the keys \<open>str\<close>, \<open>comment\<close>, \<open>data\<close>, after
      \<open>rstrip\<close>.\<close>
  "output_string cfg rs str c is_data =
     rstrip
       (if (align_comments cfg \<and> \<not> is_data)
           \<or> (align_comments cfg \<and> is_data \<and> align_data_comments cfg
               \<and> \<not> align_data_comments_separately cfg)
        then ljust (max_string_size rs + min_comment_spacing cfg) str @ comment_tail c
        else if is_data \<and> align_data_comments cfg \<and> align_data_comments_separately cfg
        then ljust (max_data_string_size rs + min_comment_spacing cfg) str @ comment_tail c
        else str @ spaces (min_comment_spacing cfg) @ comment_tail c)"

definition continuation :: "config \<Rightarrow> string \<Rightarrow> int \<Rightarrow> string" where
  \<comment> \<open>\<open>'; '.rjust(output_string.find(';') + 2) + ' ' * long_comment_indent_amount
        + output_string[last_space + 1:]\<close>\<close>
  "continuation cfg os last_space =
     rjust (find (CHR '';'') os + 2) ''; '' @ spaces (long_comment_indent_amount cfg)
     @ slice_from os (last_space + 1)"

definition emit_line :: "config \<Rightarrow> string option \<Rightarrow> render_state \<Rightarrow> rendered \<Rightarrow> (sink \<times> string) list"
  where
  \<comment> \<open>One round of the printing loop. The continuation of a wrapped line is printed
      without \<open>file=output_file\<close>.\<close>
  "emit_line cfg output_file_name rs line =
     (case line of
        Plain s \<Rightarrow> [(output_sink output_file_name, s)]
      | Structured str c is_data \<Rightarrow>
          (let os = output_string cfg rs str c is_data in
           if \<not> fix_file_width cfg \<or> int (length os) \<le> file_width cfg
           then [(output_sink output_file_name, os)]
           else
             (let last_space = rfind (CHR '' '') os (file_width cfg)
              in [(output_sink output_file_name, slice_to os last_space),
                  (Stdout, continuation cfg os last_space)])))"

definition emit :: "config \<Rightarrow> string option \<Rightarrow> render_state \<Rightarrow> (sink \<times> string) list" where
  "emit cfg output_file_name rs =
     concat (map (emit_line cfg output_file_name rs) (parsed_tokens rs))"

section \<open>The whole run\<close>

record outcome =
  emitted :: "(sink \<times> string) list"
  reported :: "(nat \<times> string \<times> string) list"

definition format_lines ::
  "config \<Rightarrow> string list \<Rightarrow> pyerror + (config \<times> agg_state \<times> render_state)" where
  \<comment> \<open>The three loops before the printing: parse, process, render. The renderer sees the
      configuration as the aggregator left it.\<close>
  "format_lines cfg lines =
     bindE (parse_lines cfg lines) (\<lambda>ts.
     bindE (aggregate cfg ts) (\<lambda>(cfg', w).
     bindE (render cfg' w) (\<lambda>rs. Inr (cfg', w, rs))))"

definition run :: "config \<Rightarrow> string option \<Rightarrow> string list \<Rightarrow> pyerror + outcome" where
  \<comment> \<open>From the lines read to the lines printed, with the configuration as loaded.\<close>
  "run cfg output_file_name lines =
     bindE (format_lines cfg lines) (\<lambda>(cfg', w, rs).
       Inr \<lparr> emitted = emit cfg' output_file_name rs, reported = diagnostics w \<rparr>)"

definition stdout_lines :: "outcome \<Rightarrow> string list" where
  \<comment> \<open>The formatted text when no output file is given.\<close>
  "stdout_lines r = map snd (emitted r)"

definition readlines :: "string list \<Rightarrow> string list" where
  \<comment> \<open>\<open>file.readlines()\<close> on a file with the given text lines: every line keeps its
      newline.\<close>
  "readlines ls = map (\<lambda>l. l @ [CHR 0x0A]) ls"

text \<open>
  The ways a plain rendered line stands to the width limit: it fits; it has no space in
  its first \<open>file_width\<close> columns; it starts with a space; it is the second line of a
  header comment that was split.
\<close>

abbreviation plain_width_cases :: "config \<Rightarrow> agg_state \<Rightarrow> string \<Rightarrow> bool" where
  "plain_width_cases cfg w s \<equiv>
     int (length s) \<le> file_width cfg
     \<or> CHR '' '' \<notin> set (take (nat (file_width cfg)) s)
     \<or> take 1 s = '' ''
     \<or> (\<exists>tok\<in>set (tokens w). \<exists>f v a.
           t_type tok = T_comment \<and> t_subtype tok = Some S_header
           \<and> t_field tok = Some f \<and> t_value tok = Some v
           \<and> render_header cfg w f v = [Plain a, Plain s])"

section \<open>Searching from the right\<close>

lemma rfind_from_bounds:
  "rfind_from c xs i b = b \<or> (i \<le> rfind_from c xs i b \<and> rfind_from c xs i b < i + int (length xs))"
proof (induction xs arbitrary: i b)
  case Nil
  then show ?case by simp
next
  case (Cons x xs)
  show ?case
    using Cons.IH[of "i + 1" "if x = c then i else b"] by (auto split: if_splits)
qed

lemma rfind_from_found:
  "c \<in> set xs \<Longrightarrow> i \<le> rfind_from c xs i b"
proof (induction xs arbitrary: i b)
  case Nil
  then show ?case by simp
next
  case (Cons x xs)
  show ?case
  proof (cases "c \<in> set xs")
    case True
    then show ?thesis using Cons.IH[of "i + 1" "if x = c then i else b"] by simp
  next
    case False
    with Cons.prems have xc: "x = c" by simp
    from rfind_from_bounds[of c xs "i + 1" i] xc show ?thesis by auto
  qed
qed

lemma rfind_upper: "0 \<le> e \<Longrightarrow> rfind c s e < e"
  using rfind_from_bounds[of c "slice_to s e" 0 "- 1"]
  by (auto simp: rfind_def slice_to_def norm_index_def)

lemma rfind_lower: "- 1 \<le> rfind c s e"
  using rfind_from_bounds[of c "slice_to s e" 0 "- 1"]
  by (auto simp: rfind_def)

lemma rfind_length: "rfind c s e < int (length s)"
  using rfind_from_bounds[of c "slice_to s e" 0 "- 1"]
  by (auto simp: rfind_def slice_to_def norm_index_def split: if_splits)

lemma rfind_found: "c \<in> set (take (nat e) s) \<Longrightarrow> 0 \<le> rfind c s e"
proof -
  assume a: "c \<in> set (take (nat e) s)"
  then have "0 < e" by (cases "0 < e") auto
  then have "slice_to s e = take (nat e) s"
    by (simp add: slice_to_def norm_index_def min_def)
  with a show ?thesis using rfind_from_found[of c "slice_to s e" 0 "- 1"] by (simp add: rfind_def)
qed

lemma slice_to_nonneg: "0 \<le> k \<Longrightarrow> k < int (length s) \<Longrightarrow> slice_to s k = take (nat k) s"
  by (auto simp add: slice_to_def norm_index_def min_def)

lemma rfind_missing:
  assumes "rfind c s e < 0"
  shows "c \<notin> set (take (nat e) s)"
  using assms rfind_found[of c e s] by auto

lemma first_part_width:
  assumes "w < int (length s)"
  shows "int (length (slice_to s (rfind (CHR '' '') s w))) \<le> w
         \<or> CHR '' '' \<notin> set (take (nat w) (slice_to s (rfind (CHR '' '') s w)))"
proof (cases "0 \<le> rfind (CHR '' '') s w")
  case True
  show ?thesis
  proof (cases "0 \<le> w")
    case w: True
    have "slice_to s (rfind (CHR '' '') s w) = take (nat (rfind (CHR '' '') s w)) s"
      using True rfind_length by (rule slice_to_nonneg)
    moreover have "rfind (CHR '' '') s w < w" using w by (rule rfind_upper)
    ultimately have "int (length (slice_to s (rfind (CHR '' '') s w))) \<le> w"
      using True by (auto simp: min_def)
    then show ?thesis ..
  next
    case False
    then show ?thesis by simp
  qed
next
  case False
  then have "CHR '' '' \<notin> set (take (nat w) s)" by (simp add: rfind_missing)
  moreover have "set (take (nat w) (slice_to s (rfind (CHR '' '') s w))) \<subseteq> set (take (nat w) s)"
    by (simp add: slice_to_def set_take_subset_set_take)
  ultimately show ?thesis by blast
qed

lemma emit_line_wrap:
  assumes "fix_file_width cfg"
    and "file_width cfg < int (length (output_string cfg rs str c d))"
  shows "emit_line cfg out rs (Structured str c d) =
           [(output_sink out,
             slice_to (output_string cfg rs str c d)
               (rfind (CHR '' '') (output_string cfg rs str c d) (file_width cfg))),
            (Stdout,
             continuation cfg (output_string cfg rs str c d)
               (rfind (CHR '' '') (output_string cfg rs str c d) (file_width cfg)))]"
  using assms by (simp add: emit_line_def Let_def)

lemma emit_line_fit:
  assumes "\<not> fix_file_width cfg \<or> int (length (output_string cfg rs str c d)) \<le> file_width cfg"
  shows "emit_line cfg out rs (Structured str c d) = [(output_sink out, output_string cfg rs str c d)]"
  using assms by (auto simp add: emit_line_def Let_def)

section \<open>Wrapped lines and their sinks\<close>

text \<open>
  Claim C10. With \<open>fix_file_width\<close> on and an output file selected, a structured rendered
  line whose aligned text is longer than \<open>file_width\<close> and has a space before the limit is
  printed in two parts: the text up to the last such space goes to the output file, and
  the continuation line goes to standard output, never to the output file.
\<close>

theorem wrap_continuation_goes_to_stdout:
  assumes "fix_file_width cfg"
    and "file_width cfg < int (length (output_string cfg rs str c d))"
    and "0 \<le> rfind (CHR '' '') (output_string cfg rs str c d) (file_width cfg)"
  shows "emit_line cfg (Some name) rs (Structured str c d) =
           [(OutputFile,
             take (nat (rfind (CHR '' '') (output_string cfg rs str c d) (file_width cfg)))
               (output_string cfg rs str c d)),
            (Stdout,
             continuation cfg (output_string cfg rs str c d)
               (rfind (CHR '' '') (output_string cfg rs str c d) (file_width cfg)))]"
  using assms emit_line_wrap[OF assms(1,2), of "Some name"]
    slice_to_nonneg[OF assms(3) rfind_length]
  by (simp add: output_sink_def)


theorem wrap_continuation_goes_to_stdout_witness:
  "fix_file_width (DEFAULT_CONFIG\<lparr> file_width := 20 \<rparr>)
   \<and> file_width (DEFAULT_CONFIG\<lparr> file_width := 20 \<rparr>)
       < int (length (output_string (DEFAULT_CONFIG\<lparr> file_width := 20 \<rparr>) render_init
                        ''; aaaa bbbb cccc dddd eeee'' None False))
   \<and> 0 \<le> rfind (CHR '' '')
             (output_string (DEFAULT_CONFIG\<lparr> file_width := 20 \<rparr>) render_init
                ''; aaaa bbbb cccc dddd eeee'' None False)
             (file_width (DEFAULT_CONFIG\<lparr> file_width := 20 \<rparr>))
   \<and> emit_line (DEFAULT_CONFIG\<lparr> file_width := 20 \<rparr>) (Some ''out.asm'') render_init
         (Structured ''; aaaa bbbb cccc dddd eeee'' None False)
       = [(OutputFile, ''; aaaa bbbb cccc''), (Stdout, '';   dddd eeee'')]"
proof -
  let ?cfg = "DEFAULT_CONFIG\<lparr> file_width := 20 \<rparr>"
  let ?os = "output_string ?cfg render_init ''; aaaa bbbb cccc dddd eeee'' None False"
  have h1: "fix_file_width ?cfg" by code_simp
  have h2: "file_width ?cfg < int (length ?os)" by code_simp
  have h3: "0 \<le> rfind (CHR '' '') ?os (file_width ?cfg)" by code_simp
  have v1: "take (nat (rfind (CHR '' '') ?os (file_width ?cfg))) ?os = ''; aaaa bbbb cccc''"
    by code_simp
  have v2: "continuation ?cfg ?os (rfind (CHR '' '') ?os (file_width ?cfg)) = '';   dddd eeee''"
    by code_simp
  have "emit_line ?cfg (Some ''out.asm'') render_init
          (Structured ''; aaaa bbbb cccc dddd eeee'' None False)
        = [(OutputFile, ''; aaaa bbbb cccc''), (Stdout, '';   dddd eeee'')]"
    unfolding wrap_continuation_goes_to_stdout[OF h1 h2 h3, of "''out.asm''"] v1 v2 ..
  with h1 h2 h3 show ?thesis by (intro conjI)
qed

section \<open>The width of the printed lines\<close>

lemma bindE_Inr: "bindE m f = Inr y \<Longrightarrow> \<exists>x. m = Inr x \<and> f x = Inr y"
  by (cases m) (simp_all add: bindE_def)

lemma emit_line_width_tied:
  assumes fw: "fix_file_width cfg"
    and mem: "(snk, l) \<in> set (emit_line cfg out rs (Structured str c d))"
  shows "int (length l) \<le> file_width cfg
         \<or> CHR '' '' \<notin> set (take (nat (file_width cfg)) l)
         \<or> (file_width cfg < int (length (output_string cfg rs str c d))
            \<and> l = continuation cfg (output_string cfg rs str c d)
                     (rfind (CHR '' '') (output_string cfg rs str c d) (file_width cfg)))"
proof (cases "int (length (output_string cfg rs str c d)) \<le> file_width cfg")
  case True
  then have "emit_line cfg out rs (Structured str c d) = [(output_sink out, output_string cfg rs str c d)]"
    by (simp add: emit_line_fit)
  with mem True show ?thesis by simp
next
  case False
  let ?os = "output_string cfg rs str c d"
  let ?k = "rfind (CHR '' '') ?os (file_width cfg)"
  from False have long: "file_width cfg < int (length ?os)" by simp
  from mem emit_line_wrap[OF fw long, of out]
  have "l = slice_to ?os ?k \<or> l = continuation cfg ?os ?k" by auto
  with first_part_width[OF long] long show ?thesis by auto
qed

lemma align_together_width:
  "align_together cfg st = (cfg', st') \<Longrightarrow>
     fix_file_width cfg' = fix_file_width cfg \<and> file_width cfg' = file_width cfg"
  by (auto simp: align_together_def split: if_splits)

lemma aggregate_width:
  "aggregate cfg ts = Inr (cfg', w) \<Longrightarrow>
     fix_file_width cfg' = fix_file_width cfg \<and> file_width cfg' = file_width cfg"
  by (auto simp: aggregate_def dest!: bindE_Inr align_together_width split: prod.splits)

subsection \<open>What the aggregator leaves untouched\<close>

lemma merge_extension_frame:
  assumes "merge_extension cfg i ts = Inr ts'"
  shows "length ts' = length ts"
    and "k \<noteq> i \<Longrightarrow> Suc k \<noteq> i \<Longrightarrow> ts' ! k = ts ! k"
  using assms
  by (auto simp: merge_extension_def mark_removed_def getkey_def
      dest!: bindE_Inr split: if_splits option.splits)

lemma measure_token_frame:
  assumes "measure_token cfg i st = Inr st'"
  shows "length (tokens st') = length (tokens st)"
    and "k \<noteq> i \<Longrightarrow> tokens st' ! k = tokens st ! k"
  using assms
  by (auto simp: measure_token_def mark_removed_def getkey_def Let_def
      dest!: bindE_Inr split: if_splits option.splits)

lemma agg_stepE:
  assumes "agg_step cfg i st = Inr st'"
  obtains ts1 t where "merge_extension cfg i (tokens st) = Inr ts1"
    and "t = ts1 ! i \<or> capitalize (ts1 ! i) = Inr t"
    and "measure_token cfg i (st\<lparr> tokens := ts1[i := t] \<rparr>) = Inr st'"
proof -
  from bindE_Inr[OF assms[unfolded agg_step_def]]
  obtain ts1 where m: "merge_extension cfg i (tokens st) = Inr ts1"
    and r: "bindE (if fix_capitalization cfg then capitalize (ts1 ! i) else Inr (ts1 ! i))
              (\<lambda>t. measure_token cfg i (st\<lparr> tokens := ts1[i := t] \<rparr>)) = Inr st'"
    by blast
  from bindE_Inr[OF r]
  obtain t where c: "(if fix_capitalization cfg then capitalize (ts1 ! i) else Inr (ts1 ! i)) = Inr t"
    and ms: "measure_token cfg i (st\<lparr> tokens := ts1[i := t] \<rparr>) = Inr st'"
    by blast
  from c have "t = ts1 ! i \<or> capitalize (ts1 ! i) = Inr t" by (auto split: if_splits)
  with m ms that show thesis by blast
qed

lemma agg_step_frame:
  assumes "agg_step cfg i st = Inr st'"
  shows "length (tokens st') = length (tokens st)"
    and "k \<noteq> i \<Longrightarrow> Suc k \<noteq> i \<Longrightarrow> tokens st' ! k = tokens st ! k"
proof -
  from assms obtain ts1 t where m: "merge_extension cfg i (tokens st) = Inr ts1"
    and ms: "measure_token cfg i (st\<lparr> tokens := ts1[i := t] \<rparr>) = Inr st'"
    by (rule agg_stepE)
  show "length (tokens st') = length (tokens st)"
    using measure_token_frame(1)[OF ms] merge_extension_frame(1)[OF m] by simp
  show "tokens st' ! k = tokens st ! k" if "k \<noteq> i" "Suc k \<noteq> i"
    using that measure_token_frame(2)[OF ms, of k] merge_extension_frame(2)[OF m, of k] by simp
qed

lemma agg_loop_frame:
  assumes "agg_loop cfg js st = Inr st'"
  shows "length (tokens st') = length (tokens st)
         \<and> (\<forall>k. k \<notin> set js \<and> Suc k \<notin> set js \<longrightarrow> tokens st' ! k = tokens st ! k)"
  using assms
proof (induction js arbitrary: st)
  case Nil
  then show ?case by simp
next
  case (Cons j js)
  from Cons.prems obtain s1 where s: "agg_step cfg j st = Inr s1"
    and l: "agg_loop cfg js s1 = Inr st'"
    by (auto dest!: bindE_Inr)
  from Cons.IH[OF l] agg_step_frame[OF s] show ?case by auto
qed

lemma agg_loop_length:
  "agg_loop cfg js st = Inr st' \<Longrightarrow> length (tokens st') = length (tokens st)"
  by (simp add: agg_loop_frame)

lemma aggregate_tokens:
  assumes "aggregate cfg ts = Inr (cfg', w)"
  shows "\<exists>st. process_tokens cfg ts = Inr st \<and> tokens w = remove_marked (tokens st)"
  using assms
  by (auto simp: aggregate_def align_together_def dest!: bindE_Inr split: if_splits)

lemma process_tokens_length:
  "process_tokens cfg ts = Inr st \<Longrightarrow> length (tokens st) = length ts"
  using agg_loop_length[of cfg "[0..<length ts]" "agg_init ts" st]
  by (simp add: process_tokens_def agg_init_def)

subsection \<open>Indentation is made of spaces\<close>

lemma get_indent_spaces: "set (get_indent tab raw) \<subseteq> {CHR '' ''}"
proof -
  have "set (takeWhile is_blank raw) \<subseteq> {c. is_blank c}"
    by (auto dest: set_takeWhileD)
  then show ?thesis
    by (auto simp: get_indent_def spaces_def is_blank_def split: if_splits)
qed

lemma classify_line_indent: "classify_line line = Inr t \<Longrightarrow> t_indent t = None"
  by (auto simp: classify_line_def new_token_def dest!: bindE_Inr
      split: if_splits option.splits prod.splits)

lemma classify_indent:
  assumes "classify cfg raw = Inr t" and "t_indent t = Some ind"
  shows "set ind \<subseteq> {CHR '' ''}"
proof -
  from bindE_Inr[OF assms(1)[unfolded classify_def]]
  obtain t0 where t0: "classify_line (strip raw) = Inr t0"
    and t: "t = t0\<lparr> t_indent := Some (get_indent (tab_size cfg) raw) \<rparr> \<or> t = t0"
    by (auto split: if_splits)
  from t classify_line_indent[OF t0] assms(2) have "ind = get_indent (tab_size cfg) raw"
    by auto
  then show ?thesis by (simp add: get_indent_spaces)
qed

lemma parse_lines_indent:
  assumes "parse_lines cfg ls = Inr ts" and "t \<in> set ts" and "t_indent t = Some ind"
  shows "set ind \<subseteq> {CHR '' ''}"
  using assms
proof (induction ls arbitrary: ts)
  case Nil
  then show ?case by simp
next
  case (Cons l ls)
  from Cons.prems(1) obtain t0 ts0 where c: "classify cfg l = Inr t0"
    and p: "parse_lines cfg ls = Inr ts0" and ts: "ts = t0 # ts0"
    by (auto dest!: bindE_Inr)
  from Cons.prems(2) ts have "t = t0 \<or> t \<in> set ts0" by simp
  then show ?case
  proof
    assume "t = t0"
    with c Cons.prems(3) show ?thesis by (auto dest: classify_indent)
  next
    assume "t \<in> set ts0"
    from Cons.IH[OF p this Cons.prems(3)] show ?thesis .
  qed
qed

lemma merge_extension_indent:
  assumes "merge_extension cfg i ts = Inr ts'" and "i < length ts"
  shows "t_indent (ts' ! k) = t_indent (ts ! k)"
  using assms
  by (auto simp: merge_extension_def mark_removed_def getkey_def nth_list_update
      dest!: bindE_Inr split: if_splits option.splits)

lemma capitalize_indent: "capitalize t = Inr t' \<Longrightarrow> t_indent t' = t_indent t"
  by (auto simp: capitalize_def getkey_def Let_def
      dest!: bindE_Inr split: if_splits option.splits)

lemma measure_token_indent:
  assumes "measure_token cfg i st = Inr st'" and "i < length (tokens st)"
  shows "t_indent (tokens st' ! k) = t_indent (tokens st ! k)"
  using assms
  by (auto simp: measure_token_def mark_removed_def getkey_def Let_def nth_list_update
      dest!: bindE_Inr split: if_splits option.splits)

lemma agg_step_indent:
  assumes "agg_step cfg i st = Inr st'" and "i < length (tokens st)"
  shows "t_indent (tokens st' ! k) = t_indent (tokens st ! k)"
proof -
  from assms(1) obtain ts1 t where m: "merge_extension cfg i (tokens st) = Inr ts1"
    and c: "t = ts1 ! i \<or> capitalize (ts1 ! i) = Inr t"
    and ms: "measure_token cfg i (st\<lparr> tokens := ts1[i := t] \<rparr>) = Inr st'"
    by (rule agg_stepE)
  have len: "length ts1 = length (tokens st)" by (rule merge_extension_frame(1)[OF m])
  from c have ct: "t_indent t = t_indent (ts1 ! i)" by (auto dest: capitalize_indent)
  have i1: "i < length (tokens (st\<lparr> tokens := ts1[i := t] \<rparr>))" using len assms(2) by simp
  have "t_indent (tokens st' ! k) = t_indent (ts1[i := t] ! k)"
    using measure_token_indent[OF ms i1, of k] by simp
  also have "\<dots> = t_indent (ts1 ! k)"
    using ct len assms(2) by (cases "k = i") (simp_all add: nth_list_update)
  also have "\<dots> = t_indent (tokens st ! k)" by (rule merge_extension_indent[OF m assms(2)])
  finally show ?thesis .
qed

lemma agg_loop_indent:
  assumes "agg_loop cfg js st = Inr st'" and "\<forall>j\<in>set js. j < length (tokens st)"
  shows "t_indent (tokens st' ! k) = t_indent (tokens st ! k)"
  using assms
proof (induction js arbitrary: st)
  case Nil
  then show ?case by simp
next
  case (Cons j js)
  from Cons.prems(1) obtain s1 where s: "agg_step cfg j st = Inr s1"
    and l: "agg_loop cfg js s1 = Inr st'"
    by (auto dest!: bindE_Inr)
  from Cons.prems(2) have j: "j < length (tokens st)" by simp
  have "length (tokens s1) = length (tokens st)" by (rule agg_step_frame(1)[OF s])
  with Cons.prems(2) have "\<forall>j\<in>set js. j < length (tokens s1)" by simp
  from Cons.IH[OF l this] agg_step_indent[OF s j, of k] show ?case by simp
qed

lemma aggregate_indent:
  assumes "aggregate cfg ts = Inr (cfg', w)" and "t \<in> set (tokens w)"
  shows "\<exists>t0\<in>set ts. t_indent t = t_indent t0"
proof -
  from assms(1) obtain st where run: "process_tokens cfg ts = Inr st"
    and w: "tokens w = remove_marked (tokens st)"
    by (blast dest: aggregate_tokens)
  have len: "length (tokens st) = length ts" by (rule process_tokens_length[OF run])
  from assms(2) w have "t \<in> set (tokens st)" by (simp add: remove_marked_def)
  then obtain k where k: "k < length (tokens st)" "t = tokens st ! k"
    by (auto simp: in_set_conv_nth)
  from run have "agg_loop cfg [0..<length ts] (agg_init ts) = Inr st"
    by (simp add: process_tokens_def)
  from agg_loop_indent[OF this, of k] have "t_indent (tokens st ! k) = t_indent (ts ! k)"
    by (simp add: agg_init_def)
  with k len show ?thesis by auto
qed

subsection \<open>The plain lines of the renderer\<close>

lemma render_header_first:
  assumes "fix_file_width cfg" and "render_header cfg w f v = Plain a # rest"
  shows "int (length a) \<le> file_width cfg \<or> CHR '' '' \<notin> set (take (nat (file_width cfg)) a)"
proof -
  let ?line = "if align_header_comments cfg
               then ljust (4 + max_field_size w) (''; '' @ f @ '':'') @ v
               else ''; '' @ f @ '': '' @ v"
  show ?thesis
  proof (cases "file_width cfg < int (length ?line)")
    case True
    with assms have "a = slice_to ?line (rfind (CHR '' '') ?line (file_width cfg))"
      by (simp add: render_header_def Let_def)
    with first_part_width[OF True] show ?thesis by simp
  next
    case False
    with assms have "a = ?line" by (simp add: render_header_def Let_def)
    with False show ?thesis by simp
  qed
qed

lemma render_header_shape:
  "(\<exists>a. render_header cfg w f v = [Plain a]) \<or> (\<exists>a b. render_header cfg w f v = [Plain a, Plain b])"
  by (simp add: render_header_def Let_def)

lemma render_append_plain:
  assumes "render_append cfg w tok st = Inr st1" and "Plain s \<in> set (parsed_tokens st1)"
  shows "Plain s \<in> set (parsed_tokens st)
         \<or> s = []
         \<or> (t_type tok = T_comment \<and> t_subtype tok = Some S_header
            \<and> (\<exists>f v. t_field tok = Some f \<and> t_value tok = Some v
                      \<and> Plain s \<in> set (render_header cfg w f v)))"
  using assms
  by (auto simp: render_append_def append_lines_def getkey_def Let_def
      dest!: bindE_Inr split: if_splits option.splits)

lemma render_indent_plain:
  assumes "render_indent cfg tok st1 = Inr st2" and "Plain s \<in> set (parsed_tokens st2)"
    and "\<forall>ind. t_indent tok = Some ind \<longrightarrow> set ind \<subseteq> {CHR '' ''}"
  shows "Plain s \<in> set (parsed_tokens st1) \<or> take 1 s = '' ''"
proof -
  from assms(1) have ne: "parsed_tokens st1 \<noteq> []"
    by (auto simp: render_indent_def split: if_splits)
  have "\<exists>p. set p \<subseteq> {CHR '' ''}
           \<and> parsed_tokens st2
               = butlast (parsed_tokens st1) @ [prefix_line p (last (parsed_tokens st1))]"
  proof (cases "fix_indents cfg")
    case True
    with assms(1) ne
    have "parsed_tokens st2
          = butlast (parsed_tokens st1)
            @ [prefix_line (spaces (tab_size cfg * indent_counter st1)) (last (parsed_tokens st1))]"
      by (auto simp: render_indent_def)
    moreover have "set (spaces (tab_size cfg * indent_counter st1)) \<subseteq> {CHR '' ''}"
      by (auto simp: spaces_def)
    ultimately show ?thesis by blast
  next
    case False
    with assms(1) ne obtain ind where ind: "t_indent tok = Some ind"
      and "parsed_tokens st2
           = butlast (parsed_tokens st1) @ [prefix_line ind (last (parsed_tokens st1))]"
      by (auto simp: render_indent_def getkey_def dest!: bindE_Inr split: option.splits)
    with assms(3) show ?thesis by blast
  qed
  then obtain p where p: "set p \<subseteq> {CHR '' ''}"
    and st2: "parsed_tokens st2
              = butlast (parsed_tokens st1) @ [prefix_line p (last (parsed_tokens st1))]"
    by blast
  from assms(2) st2
  have "Plain s \<in> set (butlast (parsed_tokens st1))
        \<or> Plain s = prefix_line p (last (parsed_tokens st1))"
    by auto
  then show ?thesis
  proof
    assume "Plain s \<in> set (butlast (parsed_tokens st1))"
    then show ?thesis by (auto dest: in_set_butlastD)
  next
    assume eq: "Plain s = prefix_line p (last (parsed_tokens st1))"
    then obtain s0 where s0: "last (parsed_tokens st1) = Plain s0" and s: "s = p @ s0"
      by (cases "last (parsed_tokens st1)") (auto simp: prefix_line_def)
    show ?thesis
    proof (cases p)
      case Nil
      with s s0 ne show ?thesis using last_in_set[OF ne] by simp
    next
      case (Cons c cs)
      with p have "c = CHR '' ''" by simp
      with Cons s show ?thesis by simp
    qed
  qed
qed

lemma render_measure_lines:
  "render_measure cfg tok st = Inr st' \<Longrightarrow> parsed_tokens st' = parsed_tokens st"
  by (auto simp: render_measure_def note_string_size_def getkey_def
      dest!: bindE_Inr split: if_splits option.splits rendered.splits)

lemma render_token_plain:
  assumes fw: "fix_file_width cfg" and tok: "tok \<in> set (tokens w)"
    and ind: "\<forall>ind. t_indent tok = Some ind \<longrightarrow> set ind \<subseteq> {CHR '' ''}"
    and step: "render_token cfg w tok st = Inr st'"
    and inv: "\<forall>s. Plain s \<in> set (parsed_tokens st) \<longrightarrow> plain_width_cases cfg w s"
  shows "\<forall>s. Plain s \<in> set (parsed_tokens st') \<longrightarrow> plain_width_cases cfg w s"
proof (intro allI impI)
  fix s assume s: "Plain s \<in> set (parsed_tokens st')"
  from bindE_Inr[OF step[unfolded render_token_def]]
  obtain st1 where a: "render_append cfg w tok st = Inr st1"
    and r: "bindE (render_indent cfg tok st1) (render_measure cfg tok) = Inr st'"
    by auto
  from bindE_Inr[OF r] obtain st2 where i: "render_indent cfg tok st1 = Inr st2"
    and m: "render_measure cfg tok st2 = Inr st'"
    by auto
  from s render_measure_lines[OF m] have "Plain s \<in> set (parsed_tokens st2)" by simp
  from render_indent_plain[OF i this ind]
  show "plain_width_cases cfg w s"
  proof
    assume "Plain s \<in> set (parsed_tokens st1)"
    from render_append_plain[OF a this]
    consider (old) "Plain s \<in> set (parsed_tokens st)" | (blank) "s = []"
      | (header) f v where "t_type tok = T_comment" "t_subtype tok = Some S_header"
          "t_field tok = Some f" "t_value tok = Some v" "Plain s \<in> set (render_header cfg w f v)"
      by blast
    then show ?thesis
    proof cases
      case old
      with inv show ?thesis by blast
    next
      case blank
      then show ?thesis by simp
    next
      case header
      from render_header_shape[of cfg w f v] show ?thesis
      proof (elim disjE exE)
        fix a assume h: "render_header cfg w f v = [Plain a]"
        with header(5) have "s = a" by simp
        with render_header_first[OF fw h] show ?thesis by blast
      next
        fix a b assume h: "render_header cfg w f v = [Plain a, Plain b]"
        with header(5) have "s = a \<or> s = b" by auto
        then show ?thesis
        proof
          assume "s = a"
          with render_header_first[OF fw h] show ?thesis by blast
        next
          assume "s = b"
          with h header(1-4) tok show ?thesis by blast
        qed
      qed
    qed
  next
    assume "take 1 s = '' ''"
    then show ?thesis by blast
  qed
qed

lemma render_loop_plain:
  assumes fw: "fix_file_width cfg" and sub: "set toks \<subseteq> set (tokens w)"
    and ind: "\<forall>tok\<in>set toks. \<forall>ind. t_indent tok = Some ind \<longrightarrow> set ind \<subseteq> {CHR '' ''}"
    and loop: "render_loop cfg w toks st = Inr st'"
    and inv: "\<forall>s. Plain s \<in> set (parsed_tokens st) \<longrightarrow> plain_width_cases cfg w s"
  shows "\<forall>s. Plain s \<in> set (parsed_tokens st') \<longrightarrow> plain_width_cases cfg w s"
  using sub ind loop inv
proof (induction toks arbitrary: st)
  case Nil
  then show ?case by simp
next
  case (Cons tok toks)
  from Cons.prems(3) obtain st1 where t: "render_token cfg w tok st = Inr st1"
    and l: "render_loop cfg w toks st1 = Inr st'"
    by (auto dest!: bindE_Inr)
  from Cons.prems(1) have tok: "tok \<in> set (tokens w)" and sub': "set toks \<subseteq> set (tokens w)"
    by simp_all
  from Cons.prems(2) have i1: "\<forall>ind. t_indent tok = Some ind \<longrightarrow> set ind \<subseteq> {CHR '' ''}"
    and i2: "\<forall>tok\<in>set toks. \<forall>ind. t_indent tok = Some ind \<longrightarrow> set ind \<subseteq> {CHR '' ''}"
    by simp_all
  from render_token_plain[OF fw tok i1 t Cons.prems(4)]
  have "\<forall>s. Plain s \<in> set (parsed_tokens st1) \<longrightarrow> plain_width_cases cfg w s" .
  from Cons.IH[OF sub' i2 l this] show ?case .
qed

lemma render_plain:
  assumes "fix_file_width cfg" and "render cfg w = Inr rs"
    and "\<forall>tok\<in>set (tokens w). \<forall>ind. t_indent tok = Some ind \<longrightarrow> set ind \<subseteq> {CHR '' ''}"
    and "Plain s \<in> set (parsed_tokens rs)"
  shows "plain_width_cases cfg w s"
  using render_loop_plain[OF assms(1) subset_refl assms(3) assms(2)[unfolded render_def]] assms(4)
  by (simp add: render_init_def)

subsection \<open>The lines of a run\<close>

text \<open>
  Claim C4, amended. With \<open>fix_file_width\<close> on, every line a run prints is at most
  \<open>file_width\<close> columns wide, except: a line that has no space in its first
  \<open>file_width\<close> columns; the continuation line of a structured line that was wrapped;
  a plain line (header comment, its continuation, blank line) that starts with a space,
  that is, one that got its indentation after the width test; and the continuation line
  of a header comment that was split.
\<close>

theorem emitted_width_bounded_except_unchecked_lines:
  assumes fw: "fix_file_width cfg"
    and run: "run cfg out lines = Inr r"
    and mem: "(snk, l) \<in> set (emitted r)"
  shows "\<exists>cfg' w rs. format_lines cfg lines = Inr (cfg', w, rs)
           \<and> (int (length l) \<le> file_width cfg
               \<or> CHR '' '' \<notin> set (take (nat (file_width cfg)) l)
               \<or> (\<exists>str c d. Structured str c d \<in> set (parsed_tokens rs)
                    \<and> file_width cfg < int (length (output_string cfg' rs str c d))
                    \<and> l = continuation cfg' (output_string cfg' rs str c d)
                             (rfind (CHR '' '') (output_string cfg' rs str c d) (file_width cfg)))
               \<or> (Plain l \<in> set (parsed_tokens rs) \<and> take 1 l = '' '')
               \<or> (Plain l \<in> set (parsed_tokens rs)
                   \<and> (\<exists>tok\<in>set (tokens w). \<exists>f v a.
                         t_type tok = T_comment \<and> t_subtype tok = Some S_header
                         \<and> t_field tok = Some f \<and> t_value tok = Some v
                         \<and> render_header cfg' w f v = [Plain a, Plain l])))"
proof -
  from run obtain cfg' w rs where fl: "format_lines cfg lines = Inr (cfg', w, rs)"
    and r: "r = \<lparr> emitted = emit cfg' out rs, reported = diagnostics w \<rparr>"
    by (auto simp: run_def dest!: bindE_Inr)
  from fl obtain ts where p: "parse_lines cfg lines = Inr ts"
    and a: "aggregate cfg ts = Inr (cfg', w)" and rn: "render cfg' w = Inr rs"
    by (auto simp: format_lines_def dest!: bindE_Inr)
  from a have same: "fix_file_width cfg' = fix_file_width cfg" "file_width cfg' = file_width cfg"
    by (auto dest: aggregate_width)
  with fw have fw': "fix_file_width cfg'" by simp
  have ind: "\<forall>tok\<in>set (tokens w). \<forall>ind. t_indent tok = Some ind \<longrightarrow> set ind \<subseteq> {CHR '' ''}"
  proof (intro ballI allI impI)
    fix tok ind assume "tok \<in> set (tokens w)" "t_indent tok = Some ind"
    with aggregate_indent[OF a] obtain t0 where "t0 \<in> set ts" "t_indent t0 = Some ind"
      by force
    with p show "set ind \<subseteq> {CHR '' ''}" by (rule parse_lines_indent)
  qed
  from mem r obtain line where line: "line \<in> set (parsed_tokens rs)"
    and ml: "(snk, l) \<in> set (emit_line cfg' out rs line)"
    by (auto simp: emit_def)
  have "int (length l) \<le> file_width cfg
        \<or> CHR '' '' \<notin> set (take (nat (file_width cfg)) l)
        \<or> (\<exists>str c d. Structured str c d \<in> set (parsed_tokens rs)
             \<and> file_width cfg < int (length (output_string cfg' rs str c d))
             \<and> l = continuation cfg' (output_string cfg' rs str c d)
                      (rfind (CHR '' '') (output_string cfg' rs str c d) (file_width cfg)))
        \<or> (Plain l \<in> set (parsed_tokens rs) \<and> take 1 l = '' '')
        \<or> (Plain l \<in> set (parsed_tokens rs)
            \<and> (\<exists>tok\<in>set (tokens w). \<exists>f v a.
                  t_type tok = T_comment \<and> t_subtype tok = Some S_header
                  \<and> t_field tok = Some f \<and> t_value tok = Some v
                  \<and> render_header cfg' w f v = [Plain a, Plain l]))"
  proof (cases line)
    case (Plain s)
    with ml have ls: "l = s" by (simp add: emit_line_def)
    with line Plain have pl: "Plain l \<in> set (parsed_tokens rs)" by simp
    from render_plain[OF fw' rn ind pl] pl same show ?thesis by auto
  next
    case (Structured str c d)
    with ml emit_line_width_tied[OF fw', of snk l out rs str c d] line same
    show ?thesis by auto
  qed
  with fl show ?thesis by blast
qed

theorem emitted_width_witness:
  "fix_file_width (DEFAULT_CONFIG\<lparr> file_width := 20 \<rparr>)
   \<and> run (DEFAULT_CONFIG\<lparr> file_width := 20 \<rparr>) None
         (readlines [''; aaaa bbbb cccc dddd eeee ffff gggg''])
       = Inr \<lparr> emitted = [(Stdout, ''; aaaa bbbb cccc''), (Stdout, '';   dddd eeee ffff gggg'')],
               reported = [] \<rparr>
   \<and> (Stdout, ''; aaaa bbbb cccc'')
       \<in> set (emitted \<lparr> emitted = [(Stdout, ''; aaaa bbbb cccc''),
                                    (Stdout, '';   dddd eeee ffff gggg'')],
                        reported = [] \<rparr>)
   \<and> (\<exists>cfg' w rs.
         format_lines (DEFAULT_CONFIG\<lparr> file_width := 20 \<rparr>)
           (readlines [''; aaaa bbbb cccc dddd eeee ffff gggg'']) = Inr (cfg', w, rs)
         \<and> (int (length ''; aaaa bbbb cccc'')
               \<le> file_width (DEFAULT_CONFIG\<lparr> file_width := 20 \<rparr>)
             \<or> CHR '' '' \<notin> set (take (nat (file_width (DEFAULT_CONFIG\<lparr> file_width := 20 \<rparr>)))
                                    ''; aaaa bbbb cccc'')
             \<or> (\<exists>str c d. Structured str c d \<in> set (parsed_tokens rs)
                  \<and> file_width (DEFAULT_CONFIG\<lparr> file_width := 20 \<rparr>)
                      < int (length (output_string cfg' rs str c d))
                  \<and> ''; aaaa bbbb cccc''
                      = continuation cfg' (output_string cfg' rs str c d)
                          (rfind (CHR '' '') (output_string cfg' rs str c d)
                             (file_width (DEFAULT_CONFIG\<lparr> file_width := 20 \<rparr>))))
             \<or> (Plain ''; aaaa bbbb cccc'' \<in> set (parsed_tokens rs)
                 \<and> take 1 ''; aaaa bbbb cccc'' = '' '')
             \<or> (Plain ''; aaaa bbbb cccc'' \<in> set (parsed_tokens rs)
                 \<and> (\<exists>tok\<in>set (tokens w). \<exists>f v a.
                       t_type tok = T_comment \<and> t_subtype tok = Some S_header
                       \<and> t_field tok = Some f \<and> t_value tok = Some v
                       \<and> render_header cfg' w f v
                           = [Plain a, Plain ''; aaaa bbbb cccc'']))))"
proof -
  let ?cfg = "DEFAULT_CONFIG\<lparr> file_width := 20 \<rparr>"
  let ?r = "\<lparr> emitted = [(Stdout, ''; aaaa bbbb cccc''), (Stdout, '';   dddd eeee ffff gggg'')],
             reported = [] \<rparr>"
  have h1: "fix_file_width ?cfg" by code_simp
  have h2: "run ?cfg None (readlines [''; aaaa bbbb cccc dddd eeee ffff gggg'']) = Inr ?r"
    by code_simp
  have h3: "(Stdout, ''; aaaa bbbb cccc'') \<in> set (emitted ?r)" by simp
  from h1 h2 h3 emitted_width_bounded_except_unchecked_lines[OF h1 h2 h3]
  show ?thesis by (intro conjI)
qed

text \<open>
  The claim as first stated fails in three ways, each on a line that is longer than
  \<open>file_width\<close> and has spaces before the limit: the continuation line of a wrapped
  comment, the continuation line of a split header comment, and a header comment that
  fits before it is indented inside a procedure.
\<close>

theorem unchecked_lines_exceed_width:
  "fix_file_width (DEFAULT_CONFIG\<lparr> file_width := 20 \<rparr>)
   \<and> file_width (DEFAULT_CONFIG\<lparr> file_width := 20 \<rparr>) = 20
   \<and> run (DEFAULT_CONFIG\<lparr> file_width := 20 \<rparr>) None
         (readlines [''; aaaa bbbb cccc dddd eeee ffff gggg''])
       = Inr \<lparr> emitted = [(Stdout, ''; aaaa bbbb cccc''), (Stdout, '';   dddd eeee ffff gggg'')],
               reported = [] \<rparr>
   \<and> (20::int) < int (length '';   dddd eeee ffff gggg'')
   \<and> CHR '' '' \<in> set (take 20 '';   dddd eeee ffff gggg'')
   \<and> run (DEFAULT_CONFIG\<lparr> file_width := 20 \<rparr>) None
         (readlines [''; Author: aaaa bbbb cccc dddd eeee ffff''])
       = Inr \<lparr> emitted = [(Stdout, ''; Author: aaaa bbbb''),
                           (Stdout, '';         cccc dddd eeee ffff'')],
               reported = [] \<rparr>
   \<and> (20::int) < int (length '';         cccc dddd eeee ffff'')
   \<and> CHR '' '' \<in> set (take 20 '';         cccc dddd eeee ffff'')
   \<and> run (DEFAULT_CONFIG\<lparr> file_width := 20 \<rparr>) None
         (readlines [''main PROC'', ''; Author: aaaa bbbb''])
       = Inr \<lparr> emitted = [(Stdout, ''  main PROC''), (Stdout, ''  ; Author: aaaa bbbb'')],
               reported = [] \<rparr>
   \<and> (20::int) < int (length ''  ; Author: aaaa bbbb'')
   \<and> CHR '' '' \<in> set (take 20 ''  ; Author: aaaa bbbb'')"
  by code_simp

section \<open>Runs on concrete files\<close>

text \<open>
  Claim C1. A line that no pattern matches becomes an error token and is reported, but
  the renderer has no branch for an error token: on the file below the line \<open>@@@\<close> is
  reported and is absent from the printed lines.
\<close>

theorem error_line_dropped:
  "run DEFAULT_CONFIG None (readlines [''mov eax, 1'', ''@@@''])
   = Inr \<lparr> emitted = [(Stdout, ''mov   eax, 1'')],
           reported = [(2, ''Unrecognized Token'', ''@@@'')] \<rparr>"
  by code_simp

text \<open>
  Claim C2. With the default configuration, one extension line after a comment is merged
  into the comment, but a second one is not: the first extension has been marked removed
  in place, so its type is no longer that of a comment, and the merge reads its
  \<open>comment\<close> key, which an extension token does not have. The run ends with KeyError
  before any line is printed.
\<close>

theorem second_extension_raises_key_error:
  "run DEFAULT_CONFIG None (readlines [''; x'', '';  y''])
   = Inr \<lparr> emitted = [(Stdout, ''; x y'')], reported = [] \<rparr>
   \<and> run DEFAULT_CONFIG None (readlines [''; x'', '';  y'', '';  z'']) = Inl KeyError"
  by code_simp

text \<open>
  Claim C3. With \<open>fix_blank_lines\<close> on, a blank line is marked removed when the token
  before it has the type of a blank line, and a token already marked removed has not: of
  three blank lines, the second is removed and the third is kept.
\<close>

theorem three_blank_lines_leave_two:
  "run DEFAULT_CONFIG None (readlines ['''', '''', ''''])
   = Inr \<lparr> emitted = [(Stdout, ''''), (Stdout, '''')], reported = [] \<rparr>"
  by code_simp

text \<open>
  Claim C5. With \<open>fix_file_width\<close> on and a line longer than \<open>file_width\<close> without any
  space, the search for the last space gives -1: the program prints the line without its
  last character, then a continuation line holding the whole line.
\<close>

theorem no_space_line_truncated:
  "run (DEFAULT_CONFIG\<lparr> file_width := 10 \<rparr>) None (readlines [''abcdefghijkl''])
   = Inr \<lparr> emitted = [(Stdout, ''abcdefghijk''), (Stdout, '';   abcdefghijkl'')],
           reported = [] \<rparr>"
  by code_simp

text \<open>
  Claim C6. With \<open>fix_indents\<close> on, the depth counter is incremented before the
  indentation is put in front of the \<open>PROC\<close> line, so that line is indented as deep as
  the body of the procedure, one level deeper than the \<open>ENDP\<close> line.
\<close>

theorem proc_line_indented_like_body:
  "run DEFAULT_CONFIG None (readlines [''main PROC'', ''ret'', ''main ENDP''])
   = Inr \<lparr> emitted = [(Stdout, ''  main PROC''), (Stdout, ''  ret''), (Stdout, ''main ENDP'')],
           reported = [] \<rparr>"
  by code_simp

text \<open>
  Claim C7. The test for the keyword \<open>END\<close> starts at index 2 of the line, so a line that
  starts with \<open>END\<close> is not classified as a directive: it becomes an instruction.
\<close>

theorem end_line_is_instruction:
  "classify DEFAULT_CONFIG (''END main'' @ [CHR 0x0A])
   = Inr ((new_token T_instruction)
            \<lparr> t_mnemonic := Some ''END'', t_operands := Some (Some ''main''),
              t_comment := Some None \<rparr>)"
  by code_simp

text \<open>
  Claim C8. The data pattern asks for a label of at least two characters, so a data line
  whose label is a single letter is not classified as data: it becomes an instruction.
\<close>

theorem one_letter_label_is_instruction:
  "classify DEFAULT_CONFIG (''x BYTE 1'' @ [CHR 0x0A])
   = Inr ((new_token T_instruction)
            \<lparr> t_mnemonic := Some ''x'', t_operands := Some (Some ''BYTE 1''),
              t_comment := Some None \<rparr>)"
  by code_simp

text \<open>
  Claim C9. Formatting the output of a run again gives another text: three blank lines
  are printed as two, and these two are printed as one.
\<close>

theorem second_run_differs:
  "run DEFAULT_CONFIG None (readlines ['''', '''', ''''])
   = Inr \<lparr> emitted = [(Stdout, ''''), (Stdout, '''')], reported = [] \<rparr>
   \<and> run DEFAULT_CONFIG None
         (readlines (stdout_lines \<lparr> emitted = [(Stdout, ''''), (Stdout, '''')], reported = [] \<rparr>))
       = Inr \<lparr> emitted = [(Stdout, '''')], reported = [] \<rparr>"
  by code_simp

end
